theory Spec2Isabelle
  imports Complex_Main "HOL-Library.AList"
begin

section \<open>Platforms and their services (services/platforms/index.ts)\<close>

text \<open>
  \<^verbatim>\<open>export type TPlatform = 'twitch' | 'youtube' | 'mixer' | 'facebook';\<close>
  A union of string literals is a datatype with one constructor per literal.
\<close>

datatype TPlatform = Twitch | Youtube | Mixer | Facebook

text \<open>
  Of a platform service the components read \<open>displayName\<close> only. The service classes
  (TwitchService, YoutubeService, MixerService, FacebookService) are not among the source
  files, so their singleton instances are parameters of the model.
\<close>

record IPlatformService =
  displayName :: string

record service_instances =
  TwitchService_instance :: IPlatformService
  YoutubeService_instance :: IPlatformService
  MixerService_instance :: IPlatformService
  FacebookService_instance :: IPlatformService

text \<open>
  Reading a property of \<open>undefined\<close> throws a TypeError in JavaScript; the model returns
  it as a value.
\<close>

datatype js_error = TypeError

text \<open>
  \<^verbatim>\<open>
  export function getPlatformService(platform: TPlatform): IPlatformService {
    return {
      twitch: TwitchService.instance,
      youtube: YoutubeService.instance,
      mixer: MixerService.instance,
      facebook: FacebookService.instance,
    }[platform];
  }
  \<close>
  The object literal is the list of its properties in the order written; indexing it
  with a key it does not have gives \<open>undefined\<close>, here \<open>None\<close>.
\<close>

definition getPlatformService :: "service_instances \<Rightarrow> TPlatform \<Rightarrow> IPlatformService option" where
  "getPlatformService S platform =
     map_of
       [(Twitch, TwitchService_instance S),
        (Youtube, YoutubeService_instance S),
        (Mixer, MixerService_instance S),
        (Facebook, FacebookService_instance S)]
       platform"

text \<open>The instance that belongs to a platform.\<close>

fun platform_instance :: "service_instances \<Rightarrow> TPlatform \<Rightarrow> IPlatformService" where
  "platform_instance S Twitch = TwitchService_instance S"
| "platform_instance S Youtube = YoutubeService_instance S"
| "platform_instance S Mixer = MixerService_instance S"
| "platform_instance S Facebook = FacebookService_instance S"

section \<open>The streaming view (consumed from the streaming service)\<close>

text \<open>
  Modelled from the spec: the declaration of \<open>TGoLiveChecklistItemState\<close>
  (services/streaming) is not among the source files. The spec gives the status enum
  \<open>{not-started, pending, done, failed}\<close>, the four strings \<open>CheckMark.render\<close> compares
  the state to.
\<close>

datatype TGoLiveChecklistItemState = NotStarted | Pending | Done | Failed

text \<open>The string a state is at run time; it is the key of \<^verbatim>\<open>styles[state]\<close>.\<close>

fun state_string :: "TGoLiveChecklistItemState \<Rightarrow> string" where
  "state_string NotStarted = ''not-started''"
| "state_string Pending = ''pending''"
| "state_string Done = ''done''"
| "state_string Failed = ''failed''"

text \<open>
  Modelled from the spec: the checklist is ``a mapping from checklist-stage-name to a
  status''. Its declaration is not among the source files; the fields are the stages
  \<open>GoLiveChecklist.render\<close> reads: one per platform (\<^verbatim>\<open>checklist[platform]\<close>) and the
  five named ones.
\<close>

record checklist =
  twitch :: TGoLiveChecklistItemState
  youtube :: TGoLiveChecklistItemState
  mixer :: TGoLiveChecklistItemState
  facebook :: TGoLiveChecklistItemState
  setupRestream :: TGoLiveChecklistItemState
  applyOptimizedSettings :: TGoLiveChecklistItemState
  startVideoTransmission :: TGoLiveChecklistItemState
  publishYoutubeBroadcast :: TGoLiveChecklistItemState
  postTweet :: TGoLiveChecklistItemState

text \<open>\<^verbatim>\<open>checklist[platform]\<close>\<close>

fun checklist_at :: "checklist \<Rightarrow> TPlatform \<Rightarrow> TGoLiveChecklistItemState" where
  "checklist_at c Twitch = twitch c"
| "checklist_at c Youtube = youtube c"
| "checklist_at c Mixer = mixer c"
| "checklist_at c Facebook = facebook c"

text \<open>
  Modelled from the spec: a broadcast descriptor is a ``remote-fetched record (id, title,
  description)''; \<open>onSelectBroadcastHandler\<close> reads \<^verbatim>\<open>broadcast.id\<close> and
  \<^verbatim>\<open>broadcast.snippet.{title, description}\<close>. The declaration of
  \<open>IYoutubeLiveBroadcast\<close> (services/platforms/youtube) is not among the source files.
\<close>

record snippet =
  title :: string
  description :: string

record IYoutubeLiveBroadcast =
  id_broadcast :: string
  snippet :: snippet

text \<open>
  Modelled from the spec: stream settings are ``a mapping from platform identifier to a
  per-platform destination record (enabled flag, title, description, platform-specific
  fields like broadcast id), plus an advanced-mode flag''. The declaration of
  \<open>IStreamSettings\<close> (services/streaming) is not among the source files. The mapping is
  a JavaScript object: the list of its properties in insertion order, which is the order
  \<^verbatim>\<open>Object.keys\<close> returns; a platform without a destination has no property
  (\<^verbatim>\<open>destinations.youtube?.enabled\<close> in \<open>GoLiveChecklist.render\<close> allows for it).
\<close>

record destination =
  enabled :: bool
  title :: string
  description :: string
  broadcastId :: string

record IStreamSettings =
  destinations :: "(TPlatform \<times> destination) list"
  advancedMode :: bool

text \<open>
  Modelled from the spec: the view of the streaming service exposes \<open>info.lifecycle\<close>,
  \<open>info.error\<close>, \<open>info.checklist\<close>, \<open>enabledPlatforms\<close>, \<open>isMultiplatformMode\<close> (spelled
  \<open>isMutliplatformMode\<close> in the code) and \<open>goLiveSettings\<close>; \<open>YoutubeEditStreamInfo\<close>
  also reads \<open>isMidStreamMode\<close>. The error is an object when present, so it is truthy
  exactly when it is present; its type is left open.
\<close>

record 'e IStreamInfo =
  error :: "'e option"
  lifecycle :: string
  checklist :: checklist

record 'e StreamInfoView =
  info :: "'e IStreamInfo"
  isMutliplatformMode :: bool
  isMidStreamMode :: bool
  goLiveSettings :: IStreamSettings
  enabledPlatforms :: "TPlatform list"

section \<open>JavaScript numbers\<close>

text \<open>
  A JavaScript number is an IEEE 754 binary64 value: a finite double (held as the rational
  it denotes; the sign of zero is not kept), an infinity or NaN. Arithmetic rounds the exact
  result to the nearest double, ties to the even significand.
\<close>

datatype number = Finite rat | PosInfinity | NegInfinity | NaN

text \<open>The number of binary digits of a positive integer.\<close>

function bitlen :: "int \<Rightarrow> int" where
  "bitlen n = (if n \<le> 0 then 0 else 1 + bitlen (n div 2))"
  by pat_completeness auto
termination
  by (relation "measure nat") auto

declare bitlen.simps [simp del]

definition pow2 :: "int \<Rightarrow> rat" where
  "pow2 k = (if 0 \<le> k then 2 ^ nat k else 1 / 2 ^ nat (- k))"

text \<open>\<open>floor_log2 q\<close> is the \<open>e\<close> with \<open>2 ^ e \<le> q < 2 ^ (e + 1)\<close>, for \<open>q > 0\<close>.\<close>

definition floor_log2 :: "rat \<Rightarrow> int" where
  "floor_log2 q =
     (let (n, d) = quotient_of q;
          k = bitlen n - bitlen d
      in if pow2 k \<le> q then k else k - 1)"

definition round_half_even :: "rat \<Rightarrow> int" where
  "round_half_even m =
     (let f = \<lfloor>m\<rfloor>; r = m - of_int f
      in if r < 1 / 2 then f
         else if 1 / 2 < r then f + 1
         else if even f then f else f + 1)"

text \<open>
  The nearest double: a significand \<open>m\<close> of at most 53 bits times \<open>2 ^ e\<close>, the exponent
  \<open>e\<close> never below \<open>-1074\<close> (subnormals); a rounded value of \<open>2 ^ 1024\<close> or more, that is
  one of more than 1024 bits before the binary point, is an infinity.
\<close>

definition round_double :: "rat \<Rightarrow> number" where
  "round_double q =
     (if q = 0 then Finite 0
      else
        let a = \<bar>q\<bar>;
            e = max (floor_log2 a - 52) (- 1074);
            m = round_half_even (a / pow2 e);
            v = of_int m * pow2 e
        in if 1025 \<le> e + bitlen m then (if 0 < q then PosInfinity else NegInfinity)
           else Finite (if 0 < q then v else - v))"

fun is_negative :: "number \<Rightarrow> bool" where
  "is_negative (Finite a) = (a < 0)"
| "is_negative NegInfinity = True"
| "is_negative _ = False"

text \<open>The operator \<^verbatim>\<open>*\<close> on numbers.\<close>

definition js_mul :: "number \<Rightarrow> number \<Rightarrow> number" where
  "js_mul x y =
     (if x = NaN \<or> y = NaN then NaN
      else case (x, y) of
        (Finite a, Finite b) \<Rightarrow> round_double (a * b)
      | _ \<Rightarrow>
          if x = Finite 0 \<or> y = Finite 0 then NaN
          else if is_negative x = is_negative y then PosInfinity else NegInfinity)"

text \<open>A decimal literal such as \<^verbatim>\<open>0.42\<close> denotes the double nearest to it.\<close>

definition js_literal :: "rat \<Rightarrow> number" where
  "js_literal q = round_double q"

subsection \<open>The string of a number\<close>

text \<open>
  \<^verbatim>\<open>String(x)\<close>, the operation \<open>Number::toString\<close> of ECMAScript in radix 10: the shortest
  decimal digits that denote the double \<open>x\<close>, written without an exponent when the decimal
  point is within 21 digits to the right or 6 to the left of the first digit.
\<close>

text \<open>The number of decimal digits of a positive integer, and the digits.\<close>

function declen :: "int \<Rightarrow> int" where
  "declen n = (if n \<le> 0 then 0 else 1 + declen (n div 10))"
  by pat_completeness auto
termination
  by (relation "measure nat") auto

declare declen.simps [simp del]

function digits :: "int \<Rightarrow> string" where
  "digits n =
     (if n < 10 then [''0123456789'' ! nat n]
      else digits (n div 10) @ [''0123456789'' ! nat (n mod 10)])"
  by pat_completeness auto
termination
  by (relation "measure nat") auto

declare digits.simps [simp del]

definition pow10 :: "int \<Rightarrow> rat" where
  "pow10 k = (if 0 \<le> k then 10 ^ nat k else 1 / 10 ^ nat (- k))"

text \<open>\<open>dec_exponent x\<close> is the \<open>n\<close> with \<open>10 ^ (n - 1) \<le> x < 10 ^ n\<close>, for \<open>x > 0\<close>.\<close>

definition dec_exponent :: "rat \<Rightarrow> int" where
  "dec_exponent x =
     (let (a, b) = quotient_of x;
          d = declen a - declen b
      in if pow10 d \<le> x then d + 1 else d)"

text \<open>
  The pairs \<open>(s, n)\<close> with \<open>s\<close> of \<open>k\<close> digits for which \<open>s * 10 ^ (n - k)\<close> is the double \<open>x\<close>,
  where \<open>10 ^ (n0 - 1) \<le> x < 10 ^ n0\<close>: only the two multiples of \<open>10 ^ (n0 - k)\<close> next to
  \<open>x\<close> can be, the upper one with one digit more when it is a power of ten; the nearer one
  first, of two equally near ones the even one.
\<close>

definition candidates :: "rat \<Rightarrow> int \<Rightarrow> int \<Rightarrow> (int \<times> int) list" where
  "candidates x n0 k =
     (let scale = pow10 (n0 - k);
          lo = \<lfloor>x / scale\<rfloor>;
          hi = lo + 1;
          below = (lo, n0);
          above = (if hi = 10 ^ nat k then (10 ^ nat (k - 1), n0 + 1) else (hi, n0));
          ok = (\<lambda>(s, n). round_double (of_int s * pow10 (n - k)) = Finite x);
          below_first = (x - of_int lo * scale < of_int hi * scale - x \<or>
                         (x - of_int lo * scale = of_int hi * scale - x \<and> even lo))
      in filter ok (if below_first then [below, above] else [above, below]))"

text \<open>
  The shortest digits: \<open>(s, n, k)\<close> for the least \<open>k\<close>, from \<open>k\<close> on, that has a candidate;
  seventeen digits always suffice for a double.
\<close>

fun shortest :: "nat \<Rightarrow> rat \<Rightarrow> int \<Rightarrow> int \<Rightarrow> (int \<times> int \<times> int) option" where
  "shortest 0 x n0 k = None"
| "shortest (Suc fuel) x n0 k =
     (case candidates x n0 k of
        (s, n) # _ \<Rightarrow> Some (s, n, k)
      | [] \<Rightarrow> shortest fuel x n0 (k + 1))"

definition positive_to_string :: "rat \<Rightarrow> string" where
  "positive_to_string x =
     (case shortest 17 x (dec_exponent x) 1 of
        None \<Rightarrow> []
      | Some (s, n, k) \<Rightarrow>
          if k \<le> n \<and> n \<le> 21 then digits s @ replicate (nat (n - k)) CHR ''0''
          else if 0 < n \<and> n \<le> 21 then take (nat n) (digits s) @ ''.'' @ drop (nat n) (digits s)
          else if - 6 < n \<and> n \<le> 0 then ''0.'' @ replicate (nat (- n)) CHR ''0'' @ digits s
          else
            (if k = 1 then digits s else take 1 (digits s) @ ''.'' @ drop 1 (digits s))
            @ ''e'' @ (if 0 \<le> n - 1 then ''+'' else ''-'') @ digits \<bar>n - 1\<bar>)"

fun number_to_string :: "number \<Rightarrow> string" where
  "number_to_string NaN = ''NaN''"
| "number_to_string PosInfinity = ''Infinity''"
| "number_to_string NegInfinity = ''-Infinity''"
| "number_to_string (Finite x) =
     (if x = 0 then ''0''
      else if x < 0 then ''-'' @ positive_to_string (- x)
      else positive_to_string x)"

section \<open>Rendered output\<close>

text \<open>
  A render function returns a tree of virtual nodes. An element (or child component) has
  a tag, attributes and children; a child can also be a string, a number, an array of
  nodes (from \<^verbatim>\<open>map\<close>), or the \<open>false\<close> or \<open>undefined\<close> that a short-circuited
  \<^verbatim>\<open>cond && <node/>\<close> leaves, which display nothing.

  An attribute value is a string, a class attribute (the list of its class names), a
  method of the rendering component (named), a settings object, or the metadata of the
  broadcast input (broadcasts, loading, disabled).
\<close>

datatype attr_value =
    AStr string
  | AClass "string list"
  | AMethod string
  | ASettings IStreamSettings
  | AEvent "IYoutubeLiveBroadcast list" bool bool

datatype vnode =
    VElem string "(string \<times> attr_value) list" "vnode list"
  | VText string
  | VNum number
  | VBool bool
  | VUndefined
  | VArray "vnode list"

text \<open>
  \<open>styles\<close> is the CSS module \<open>GoLiveChecklist.m.less\<close>, which is not among the source
  files: a parameter that maps an exported name to its class name, and any other name to
  \<open>undefined\<close>.
\<close>

type_synonym css_module = "string \<Rightarrow> string option"

text \<open>\<^verbatim>\<open>class={styles.x}\<close>: one class, none when the value is \<open>undefined\<close>.\<close>

definition class_value :: "string option \<Rightarrow> string list" where
  "class_value v = (case v of None \<Rightarrow> [] | Some c \<Rightarrow> [c])"

text \<open>\<^verbatim>\<open>cx(a, b, ...)\<close> of the classnames package keeps its truthy arguments.\<close>

definition cx :: "string option list \<Rightarrow> string list" where
  "cx args = concat (map (\<lambda>v. case v of None \<Rightarrow> [] | Some c \<Rightarrow> if c = [] then [] else [c]) args)"

text \<open>
  A computed property key \<^verbatim>\<open>[k]\<close> is the string of \<open>k\<close>; an object literal defines its
  properties in order, a repeated key overwriting the earlier value in place. The class
  binding \<^verbatim>\<open>class={{ [k1]: b1, [k2]: b2 }}\<close> applies the keys whose value is true.
\<close>

definition property_key :: "string option \<Rightarrow> string" where
  "property_key v = (case v of None \<Rightarrow> ''undefined'' | Some c \<Rightarrow> c)"

definition object_literal :: "(string option \<times> 'v) list \<Rightarrow> (string \<times> 'v) list" where
  "object_literal ps = fold (\<lambda>(k, v). AList.update (property_key k) v) ps []"

definition class_object :: "(string option \<times> bool) list \<Rightarrow> string list" where
  "class_object ps = map fst (filter snd (object_literal ps))"

section \<open>The go-live checklist (components/windows/go-live/GoLiveChecklist.tsx)\<close>

text \<open>
  What the component reads: its prop \<open>isUpdateMode\<close> (default \<open>false\<close>), the view of the
  streaming service, \<^verbatim>\<open>youtubeService.progressInfo.progress\<close>,
  \<^verbatim>\<open>twitterService.state.tweetWhenGoingLive\<close> and
  \<^verbatim>\<open>videoEncodingOptimizationService.state.useOptimizedProfile\<close>.
\<close>

record 'e GoLiveChecklist =
  isUpdateMode :: bool
  view :: "'e StreamInfoView"
  progress :: number
  tweetWhenGoingLive :: bool
  useOptimizedProfile :: bool

text \<open>
  \<^verbatim>\<open>
  private getHeaderText() {
    if (this.error) {
      return $t('Something went wrong');
    }
    if (this.view.info.lifecycle === 'live') {
      return $t("You're live!");
    }
    return $t('Working on your live stream');
  }
  \<close>
  \<open>$t\<close> is the translation lookup of the i18n service, which is not among the source
  files: it is the parameter \<open>t\<close>, applied to the message and its parameters.
\<close>

type_synonym translate = "string \<Rightarrow> (string \<times> string) list \<Rightarrow> string"

definition getHeaderText :: "translate \<Rightarrow> 'e GoLiveChecklist \<Rightarrow> string" where
  "getHeaderText t c =
     (if error (info (view c)) \<noteq> None then t ''Something went wrong'' []
      else if lifecycle (info (view c)) = ''live'' then t ''You're live!'' []
      else t ''Working on your live stream'' [])"

text \<open>
  \<^verbatim>\<open>
  class CheckMark extends TsxComponent<CheckMarkProps> {
    render() {
      const state = this.props.state;
      const cssClass = cx(styles.check, styles[state]);
      return (
        <span class={cssClass}>
          {state === 'not-started' && <i class="fa fa-circle" />}
          {state === 'pending' && <i class="fa fa-spinner fa-pulse" />}
          <transition name="checkboxdone">
            {state === 'done' && <i key="done" class="fa fa-check" />}
          </transition>
          {state === 'failed' && <i class="fa fa-times" />}
        </span>
      );
    }
  }
  \<close>
\<close>

definition CheckMark_render :: "css_module \<Rightarrow> TGoLiveChecklistItemState \<Rightarrow> vnode" where
  "CheckMark_render styles state =
     (let cssClass = cx [styles ''check'', styles (state_string state)]
      in VElem ''span'' [(''class'', AClass cssClass)]
           [if state = NotStarted
              then VElem ''i'' [(''class'', AClass [''fa'', ''fa-circle''])] []
              else VBool False,
            if state = Pending
              then VElem ''i'' [(''class'', AClass [''fa'', ''fa-spinner'', ''fa-pulse''])] []
              else VBool False,
            VElem ''transition'' [(''name'', AStr ''checkboxdone'')]
              [if state = Done
                 then VElem ''i'' [(''key'', AStr ''done''), (''class'', AClass [''fa'', ''fa-check''])] []
                 else VBool False],
            if state = Failed
              then VElem ''i'' [(''class'', AClass [''fa'', ''fa-times''])] []
              else VBool False])"

text \<open>
  \<^verbatim>\<open>
  private renderYoutubePercentage() {
    if (this.view.info.checklist.publishYoutubeBroadcast === 'not-started') return '';
    const progressInfo = this.youtubeService.progressInfo;
    return <span class={styles.pending}> {progressInfo.progress * 100}%</span>;
  }
  \<close>
  The children of the span are the text of one space, the number and the text \<open>%\<close>.
\<close>

definition renderYoutubePercentage :: "css_module \<Rightarrow> 'e GoLiveChecklist \<Rightarrow> vnode" where
  "renderYoutubePercentage styles c =
     (if publishYoutubeBroadcast (checklist (info (view c))) = NotStarted then VText ''''
      else VElem ''span'' [(''class'', AClass (class_value (styles ''pending'')))]
             [VText '' '', VNum (js_mul (progress c) (Finite 100)), VText ''%''])"

text \<open>
  \<^verbatim>\<open>
  private renderCheck(title: string, state: TGoLiveChecklistItemState, renderYTPercentage = false) {
    return (
      <li
        key={title}
        class={{
          [styles.notStarted]: state === 'not-started',
          [styles.itemError]: state === 'failed',
        }}
      >
        <CheckMark state={state} />
        {title}
        {renderYTPercentage && this.renderYoutubePercentage()}
      </li>
    );
  }
  \<close>
  The child component \<open>CheckMark\<close> stands in the tree as what it renders.
\<close>

definition renderCheck ::
  "css_module \<Rightarrow> 'e GoLiveChecklist \<Rightarrow> string \<Rightarrow> TGoLiveChecklistItemState \<Rightarrow> bool \<Rightarrow> vnode" where
  "renderCheck styles c title' state renderYTPercentage =
     VElem ''li''
       [(''key'', AStr title'),
        (''class'', AClass (class_object
           [(styles ''notStarted'', state = NotStarted),
            (styles ''itemError'', state = Failed)]))]
       [CheckMark_render styles state,
        VText title',
        if renderYTPercentage then renderYoutubePercentage styles c else VBool False]"

text \<open>
  \<^verbatim>\<open>
  private getPlatformDisplayName(platform: TPlatform): string {
    return getPlatformService(platform).displayName;
  }
  \<close>
\<close>

definition getPlatformDisplayName :: "service_instances \<Rightarrow> TPlatform \<Rightarrow> js_error + string" where
  "getPlatformDisplayName S platform =
     (case getPlatformService S platform of
        None \<Rightarrow> Inl TypeError
      | Some service \<Rightarrow> Inr (displayName service))"

text \<open>\<^verbatim>\<open>xs.map(f)\<close> for an \<open>f\<close> that can throw: the first error ends the loop.\<close>

fun map_result :: "('a \<Rightarrow> 'x + 'b) \<Rightarrow> 'a list \<Rightarrow> 'x + 'b list" where
  "map_result f [] = Inr []"
| "map_result f (x # xs) =
     (case f x of
        Inl e \<Rightarrow> Inl e
      | Inr y \<Rightarrow> (case map_result f xs of Inl e \<Rightarrow> Inl e | Inr ys \<Rightarrow> Inr (y # ys)))"

text \<open>
  \<^verbatim>\<open>
  private render() {
    const checklist = this.view.info.checklist;
    const { isMutliplatformMode, goLiveSettings } = this.view;
    const isUpdateMode = this.props.isUpdateMode;
    const shouldPublishYT = !isUpdateMode && goLiveSettings.destinations.youtube?.enabled;
    const shouldShowOptimizedProfile =
      this.videoEncodingOptimizationService.state.useOptimizedProfile && !isUpdateMode;
    const shouldPostTweet = this.twitterService.state.tweetWhenGoingLive;
    return (
      <div class={styles.container}>
        <h1>{this.getHeaderText()}</h1>
        <ul class={styles.checklist}>
          {this.view.enabledPlatforms.map(platform =>
            this.renderCheck(
              $t('Update settings for %{platform}', {
                platform: this.getPlatformDisplayName(platform),
              }),
              checklist[platform],
            ),
          )}
          {!isUpdateMode &&
            isMutliplatformMode &&
            this.renderCheck($t('Configure the Restream service'), checklist.setupRestream)}
          {shouldShowOptimizedProfile &&
            this.renderCheck($t('Apply optimized settings'), checklist.applyOptimizedSettings)}
          {!isUpdateMode &&
            this.renderCheck($t('Start video transmission'), checklist.startVideoTransmission)}
          {shouldPublishYT &&
            this.renderCheck(
              $t('Publish Youtube broadcast'),
              checklist.publishYoutubeBroadcast,
              true,
            )}
          {shouldPostTweet && this.renderCheck($t('Post a tweet'), checklist.postTweet)}
        </ul>
        <GoLiveError />
      </div>
    );
  }
  \<close>
  \<open>shouldPublishYT\<close> is \<open>false\<close> in update mode; otherwise it is \<open>undefined\<close> (here \<open>None\<close>)
  when the settings have no youtube destination, and that destination's \<open>enabled\<close> flag
  when they have one. A \<^verbatim>\<open>cond && node\<close> leaves the falsy \<open>cond\<close> itself as the child.
\<close>

definition render ::
  "css_module \<Rightarrow> translate \<Rightarrow> service_instances \<Rightarrow> 'e GoLiveChecklist \<Rightarrow> js_error + vnode" where
  "render styles t S c =
     (let checklist' = checklist (info (view c));
          isMutliplatformMode' = isMutliplatformMode (view c);
          goLiveSettings' = goLiveSettings (view c);
          isUpdateMode' = isUpdateMode c;
          shouldPublishYT =
            (if isUpdateMode' then Some False
             else map_option enabled (map_of (destinations goLiveSettings') Youtube));
          shouldShowOptimizedProfile = (useOptimizedProfile c \<and> \<not> isUpdateMode');
          shouldPostTweet = tweetWhenGoingLive c
      in case map_result
                (\<lambda>platform.
                   case getPlatformDisplayName S platform of
                     Inl e \<Rightarrow> Inl e
                   | Inr name \<Rightarrow>
                       Inr (renderCheck styles c
                              (t ''Update settings for %{platform}'' [(''platform'', name)])
                              (checklist_at checklist' platform) False))
                (enabledPlatforms (view c)) of
           Inl e \<Rightarrow> Inl e
         | Inr platformChecks \<Rightarrow>
             Inr (VElem ''div'' [(''class'', AClass (class_value (styles ''container'')))]
               [VElem ''h1'' [] [VText (getHeaderText t c)],
                VElem ''ul'' [(''class'', AClass (class_value (styles ''checklist'')))]
                  [VArray platformChecks,
                   if \<not> isUpdateMode' \<and> isMutliplatformMode'
                     then renderCheck styles c (t ''Configure the Restream service'' [])
                            (setupRestream checklist') False
                     else VBool False,
                   if shouldShowOptimizedProfile
                     then renderCheck styles c (t ''Apply optimized settings'' [])
                            (applyOptimizedSettings checklist') False
                     else VBool False,
                   if \<not> isUpdateMode'
                     then renderCheck styles c (t ''Start video transmission'' [])
                            (startVideoTransmission checklist') False
                     else VBool False,
                   case shouldPublishYT of
                     None \<Rightarrow> VUndefined
                   | Some False \<Rightarrow> VBool False
                   | Some True \<Rightarrow>
                       renderCheck styles c (t ''Publish Youtube broadcast'' [])
                         (publishYoutubeBroadcast checklist') True,
                   if shouldPostTweet
                     then renderCheck styles c (t ''Post a tweet'' []) (postTweet checklist') False
                     else VBool False],
                VElem ''GoLiveError'' [] []]))"

section \<open>The base of the stream-info editors (components/platforms/BaseEditSteamInfo.tsx)\<close>

text \<open>
  \<^verbatim>\<open>
  get enabledPlatforms(): TPlatform[] {
    const platforms = Object.keys(this.settings.destinations) as TPlatform[];
    return platforms.filter(platform => this.settings.destinations[platform].enabled);
  }
  \<close>
  Each \<open>platform\<close> is a key of the object, so \<^verbatim>\<open>destinations[platform]\<close> is defined; the
  \<open>None\<close> branch is never taken.
\<close>

definition BaseEditStreamInfo_enabledPlatforms :: "IStreamSettings \<Rightarrow> TPlatform list" where
  "BaseEditStreamInfo_enabledPlatforms settings' =
     (let platforms = map fst (destinations settings')
      in filter
           (\<lambda>platform.
              case map_of (destinations settings') platform of
                Some d \<Rightarrow> enabled d
              | None \<Rightarrow> False)
           platforms)"

text \<open>
  \<^verbatim>\<open>
  get canShowOnlyRequiredFields(): boolean {
    return this.enabledPlatforms.length > 1 && !this.settings.advancedMode;
  }
  \<close>
\<close>

definition canShowOnlyRequiredFields :: "IStreamSettings \<Rightarrow> bool" where
  "canShowOnlyRequiredFields settings' =
     (1 < length (BaseEditStreamInfo_enabledPlatforms settings') \<and> \<not> advancedMode settings')"

section \<open>The youtube stream-info editor (YoutubeEditStreamInfo)\<close>

text \<open>
  The state of the component: the settings it edits, the broadcasts fetched when it was
  created (none before the fetch returns), the flag that the fetch has returned, and the
  view of the streaming service.
\<close>

record 'e YoutubeEditStreamInfo =
  settings :: IStreamSettings
  broadcasts :: "IYoutubeLiveBroadcast list"
  broadcastsLoaded :: bool
  streamingService_views :: "'e StreamInfoView"

text \<open>\<^verbatim>\<open>get canChangeBroadcast() { return !this.view.isMidStreamMode; }\<close>\<close>

definition canChangeBroadcast :: "'e YoutubeEditStreamInfo \<Rightarrow> bool" where
  "canChangeBroadcast c = (\<not> isMidStreamMode (streamingService_views c))"

text \<open>
  \<^verbatim>\<open>
  onSelectBroadcastHandler() {
    // set title and description fields from selected broadcast
    const ytSettings = this.settings.destinations.youtube;
    const selectedBroadcast = this.broadcasts.find(
      broadcast => broadcast.id === ytSettings.broadcastId,
    );
    if (!selectedBroadcast) return;
    const { title, description } = selectedBroadcast.snippet;
    ytSettings.title = title;
    ytSettings.description = description;
  }
  \<close>
  The handler returns the outcome (an exception or a normal return) and the component
  after it. Without a youtube destination \<open>ytSettings\<close> is \<open>undefined\<close>: \<open>find\<close> then throws
  a TypeError at the first broadcast it tests, before anything is written, and returns
  \<open>undefined\<close> on an empty list.
\<close>

definition onSelectBroadcastHandler ::
  "'e YoutubeEditStreamInfo \<Rightarrow> (js_error + unit) \<times> 'e YoutubeEditStreamInfo" where
  "onSelectBroadcastHandler c =
     (case map_of (destinations (settings c)) Youtube of
        None \<Rightarrow> (if broadcasts c = [] then (Inr (), c) else (Inl TypeError, c))
      | Some ytSettings \<Rightarrow>
          (case find (\<lambda>broadcast. id_broadcast broadcast = broadcastId ytSettings) (broadcasts c) of
             None \<Rightarrow> (Inr (), c)
           | Some selectedBroadcast \<Rightarrow>
               (let title' = snippet.title (snippet selectedBroadcast);
                    description' = snippet.description (snippet selectedBroadcast)
                in (Inr (),
                    c\<lparr>settings := (settings c)\<lparr>destinations :=
                         AList.update Youtube
                           (ytSettings\<lparr>title := title', description := description'\<rparr>)
                           (destinations (settings c))\<rparr>\<rparr>))))"

text \<open>
  The \<open>event\<close> entry of \<^verbatim>\<open>get formMetadata()\<close>:
  \<^verbatim>\<open>
      event: {
        broadcasts: this.broadcasts,
        loading: !this.broadcastsLoaded,
        disabled: !this.canChangeBroadcast,
      },
  \<close>
\<close>

definition formMetadata_event :: "'e YoutubeEditStreamInfo \<Rightarrow> attr_value" where
  "formMetadata_event c = AEvent (broadcasts c) (\<not> broadcastsLoaded c) (\<not> canChangeBroadcast c)"

text \<open>
  \<^verbatim>\<open>
  render() {
    const canShowOnlyRequiredFields = this.canShowOnlyRequiredFields;
    return (
      !canShowOnlyRequiredFields && (
        <ValidatedForm onInput={this.emitInput}>
          <HFormGroup title={$t('Event')}>
            <BroadcastInput
              onInput={this.onSelectBroadcastHandler}
              vModel={this.settings.destinations.youtube.broadcastId}
              metadata={this.formMetadata.event}
            />
          </HFormGroup>
          <CommonPlatformFields vModel={this.settings} platform={'youtube'} />
        </ValidatedForm>
      )
    );
  }
  \<close>
  When the flag is set the result is \<open>false\<close>. Otherwise the form is built, and reading
  \<^verbatim>\<open>destinations.youtube.broadcastId\<close> throws when there is no youtube destination.
\<close>

definition YoutubeEditStreamInfo_render ::
  "translate \<Rightarrow> 'e YoutubeEditStreamInfo \<Rightarrow> js_error + vnode" where
  "YoutubeEditStreamInfo_render t c =
     (if canShowOnlyRequiredFields (settings c) then Inr (VBool False)
      else
        case map_of (destinations (settings c)) Youtube of
          None \<Rightarrow> Inl TypeError
        | Some ytSettings \<Rightarrow>
            Inr (VElem ''ValidatedForm'' [(''onInput'', AMethod ''emitInput'')]
              [VElem ''HFormGroup'' [(''title'', AStr (t ''Event'' []))]
                 [VElem ''BroadcastInput''
                    [(''onInput'', AMethod ''onSelectBroadcastHandler''),
                     (''vModel'', AStr (broadcastId ytSettings)),
                     (''metadata'', formMetadata_event c)]
                    []],
               VElem ''CommonPlatformFields''
                 [(''vModel'', ASettings (settings c)), (''platform'', AStr ''youtube'')]
                 []]))"

section \<open>Reading a rendered tree\<close>

text \<open>The class names of an element, and its children.\<close>

fun classes_of :: "vnode \<Rightarrow> string list" where
  "classes_of (VElem tag attrs children) =
     (case map_of attrs ''class'' of Some (AClass cs) \<Rightarrow> cs | _ \<Rightarrow> [])"
| "classes_of _ = []"

fun children_of :: "vnode \<Rightarrow> vnode list" where
  "children_of (VElem tag attrs children) = children"
| "children_of _ = []"

fun is_element :: "vnode \<Rightarrow> bool" where
  "is_element (VElem tag attrs children) = True"
| "is_element _ = False"

text \<open>The \<^verbatim>\<open><i>\<close> elements (the icons) of a tree, in document order.\<close>

fun icons :: "vnode \<Rightarrow> vnode list" where
  "icons (VElem tag attrs children) =
     (if tag = ''i'' then [VElem tag attrs children] else []) @ concat (map icons children)"
| "icons (VArray children) = concat (map icons children)"
| "icons _ = []"

text \<open>
  The text a tree of elements displays: a string as it is, a number as its string, and
  nothing for a boolean or \<open>undefined\<close>.
\<close>

fun text_content :: "vnode \<Rightarrow> string" where
  "text_content (VElem tag attrs children) = concat (map text_content children)"
| "text_content (VArray children) = concat (map text_content children)"
| "text_content (VText s) = s"
| "text_content (VNum x) = number_to_string x"
| "text_content (VBool b) = []"
| "text_content VUndefined = []"

text \<open>
  The children of the \<^verbatim>\<open><ul>\<close> of the rendered checklist, the second child of its root: the
  array of the platform stages, then one child for each of the stages restream, optimized
  profile, start transmission, publish youtube broadcast and tweet.
\<close>

definition ul_children :: "vnode \<Rightarrow> vnode list" where
  "ul_children tree = children_of (children_of tree ! 1)"

text \<open>The tag of an element.\<close>

fun tag_of :: "vnode \<Rightarrow> string" where
  "tag_of (VElem tag attrs children) = tag"
| "tag_of _ = []"


section \<open>Example states\<close>

text \<open>Concrete inputs, at which the theorems below are instantiated.\<close>

text \<open>
  The lookup of a locale without translations: the message itself, followed by its
  parameters, each as \<open>[name=value]\<close>.
\<close>

definition example_t :: translate where
  "example_t message params =
     message @ concat (map (\<lambda>(name, v). '' ['' @ name @ ''='' @ v @ '']'') params)"

definition example_styles :: css_module where
  "example_styles =
     map_of
       [(''container'', ''container_1''),
        (''checklist'', ''checklist_2''),
        (''notStarted'', ''notStarted_3''),
        (''itemError'', ''itemError_4''),
        (''check'', ''check_5''),
        (''pending'', ''pending_6''),
        (''done'', ''done_7''),
        (''failed'', ''failed_8'')]"

definition example_services :: service_instances where
  "example_services =
     \<lparr>TwitchService_instance = \<lparr>displayName = ''Twitch''\<rparr>,
      YoutubeService_instance = \<lparr>displayName = ''YouTube''\<rparr>,
      MixerService_instance = \<lparr>displayName = ''Mixer''\<rparr>,
      FacebookService_instance = \<lparr>displayName = ''Facebook''\<rparr>\<rparr>"

definition example_checklist :: checklist where
  "example_checklist =
     \<lparr>twitch = Done, youtube = Pending, mixer = NotStarted, facebook = NotStarted,
      setupRestream = NotStarted, applyOptimizedSettings = NotStarted,
      startVideoTransmission = NotStarted, publishYoutubeBroadcast = Pending,
      postTweet = Failed\<rparr>"

text \<open>Settings with the given advanced-mode flag and destinations.\<close>

definition example_twitch :: "bool \<Rightarrow> destination" where
  "example_twitch on =
     \<lparr>enabled = on, title = ''Speedrun'', description = ''Any%'', broadcastId = ''''\<rparr>"

definition example_youtube :: "bool \<Rightarrow> destination" where
  "example_youtube on =
     \<lparr>enabled = on, title = ''Old title'', description = ''Old description'', broadcastId = ''b2''\<rparr>"

definition example_settings :: "bool \<Rightarrow> IStreamSettings" where
  "example_settings advanced =
     \<lparr>destinations = [(Twitch, example_twitch True), (Youtube, example_youtube True)],
      advancedMode = advanced\<rparr>"

text \<open>Settings without a youtube destination.\<close>

definition example_settings_twitch_only :: IStreamSettings where
  "example_settings_twitch_only =
     \<lparr>destinations = [(Twitch, example_twitch True)], advancedMode = False\<rparr>"

definition example_view :: "unit option \<Rightarrow> string \<Rightarrow> IStreamSettings \<Rightarrow> unit StreamInfoView" where
  "example_view err life s =
     \<lparr>info = \<lparr>error = err, lifecycle = life, checklist = example_checklist\<rparr>,
      isMutliplatformMode = True,
      isMidStreamMode = False,
      goLiveSettings = s,
      enabledPlatforms = [Twitch, Youtube]\<rparr>"

text \<open>A checklist component with the given error, lifecycle and update mode.\<close>

definition example_GoLiveChecklist :: "unit option \<Rightarrow> string \<Rightarrow> bool \<Rightarrow> unit GoLiveChecklist" where
  "example_GoLiveChecklist err life update =
     \<lparr>isUpdateMode = update,
      view = example_view err life (example_settings False),
      progress = js_literal (42 / 100),
      tweetWhenGoingLive = True,
      useOptimizedProfile = True\<rparr>"

definition example_broadcasts :: "IYoutubeLiveBroadcast list" where
  "example_broadcasts =
     [\<lparr>id_broadcast = ''b1'', snippet = \<lparr>snippet.title = ''First'', snippet.description = ''One''\<rparr>\<rparr>,
      \<lparr>id_broadcast = ''b2'', snippet = \<lparr>snippet.title = ''Second'', snippet.description = ''Two''\<rparr>\<rparr>]"

text \<open>An editor component with the given settings and fetched broadcasts.\<close>

definition example_YoutubeEditStreamInfo ::
  "IStreamSettings \<Rightarrow> IYoutubeLiveBroadcast list \<Rightarrow> unit YoutubeEditStreamInfo" where
  "example_YoutubeEditStreamInfo s bs =
     \<lparr>settings = s,
      broadcasts = bs,
      broadcastsLoaded = True,
      streamingService_views = example_view None ''empty'' s\<rparr>"

section \<open>Header text\<close>

text \<open>
  C1. The header follows the precedence error > live > working: with an error present it
  is the message 'Something went wrong' whatever the lifecycle; with no error and
  lifecycle 'live' it is "You're live!"; in every other case it is 'Working on your live
  stream'. The message is what the translation lookup gives for that text.
\<close>

theorem getHeaderText_precedence:
  "(error (info (view c)) \<noteq> None \<longrightarrow> getHeaderText t c = t ''Something went wrong'' []) \<and>
   (error (info (view c)) = None \<and> lifecycle (info (view c)) = ''live'' \<longrightarrow>
      getHeaderText t c = t ''You're live!'' []) \<and>
   (error (info (view c)) = None \<and> lifecycle (info (view c)) \<noteq> ''live'' \<longrightarrow>
      getHeaderText t c = t ''Working on your live stream'' [])"
  by (simp add: getHeaderText_def)

text \<open>
  The three cases at concrete states: an error during the live state, the live state
  without an error, and the state `empty' without an error.
\<close>

theorem getHeaderText_precedence_witness:
  "(error (info (view (example_GoLiveChecklist (Some ()) ''live'' False))) \<noteq> None \<and>
    getHeaderText example_t (example_GoLiveChecklist (Some ()) ''live'' False)
      = ''Something went wrong'') \<and>
   (error (info (view (example_GoLiveChecklist None ''live'' False))) = None \<and>
    getHeaderText example_t (example_GoLiveChecklist None ''live'' False) = ''You're live!'') \<and>
   (error (info (view (example_GoLiveChecklist None ''empty'' False))) = None \<and>
    getHeaderText example_t (example_GoLiveChecklist None ''empty'' False)
      = ''Working on your live stream'')"
  using getHeaderText_precedence [of "example_GoLiveChecklist (Some ()) ''live'' False" example_t]
    getHeaderText_precedence [of "example_GoLiveChecklist None ''live'' False" example_t]
    getHeaderText_precedence [of "example_GoLiveChecklist None ''empty'' False" example_t]
  by (simp add: example_GoLiveChecklist_def example_view_def example_t_def)

section \<open>The platform services\<close>

text \<open>
  C9. \<open>getPlatformService\<close> is total over the platform identifiers: for each of 'twitch',
  'youtube', 'mixer' and 'facebook' it returns the instance of that platform's service,
  never \<open>undefined\<close>; and these four identifiers are all the platforms there are.
\<close>

theorem getPlatformService_total:
  "getPlatformService S platform = Some (platform_instance S platform) \<and>
   getPlatformService S platform \<noteq> None \<and>
   (UNIV :: TPlatform set) = {Twitch, Youtube, Mixer, Facebook}"
proof -
  have "getPlatformService S platform = Some (platform_instance S platform)"
    by (cases platform) (simp_all add: getPlatformService_def)
  moreover have "(UNIV :: TPlatform set) = {Twitch, Youtube, Mixer, Facebook}"
  proof
    show "(UNIV :: TPlatform set) \<subseteq> {Twitch, Youtube, Mixer, Facebook}"
    proof
      fix p :: TPlatform
      show "p \<in> {Twitch, Youtube, Mixer, Facebook}" by (cases p) simp_all
    qed
  qed simp
  ultimately show ?thesis by simp
qed

section \<open>Showing only the required fields\<close>

text \<open>
  The platforms \<open>enabledPlatforms\<close> lists are as many as the platforms that have an
  enabled destination, when the keys of the object are distinct (as the keys of a
  JavaScript object are).
\<close>

lemma enabled_keys_card:
  assumes "distinct (map fst ds)"
  shows "length (filter (\<lambda>p. case map_of ds p of Some d \<Rightarrow> enabled d | None \<Rightarrow> False) (map fst ds))
         = card {p. \<exists>d. map_of ds p = Some d \<and> enabled d}"
proof -
  let ?P = "\<lambda>p. case map_of ds p of Some d \<Rightarrow> enabled d | None \<Rightarrow> False"
  have "length (filter ?P (map fst ds)) = card ({p. ?P p} \<inter> set (map fst ds))"
    using assms by (rule distinct_length_filter)
  moreover have "x \<in> fst ` set ds" if "map_of ds x = Some d" for x d
    using that by (metis domI dom_map_of_conv_image_fst)
  then have "{p. ?P p} \<inter> set (map fst ds) = {p. \<exists>d. map_of ds p = Some d \<and> enabled d}"
    by (auto split: option.splits)
  ultimately show ?thesis by simp
qed

text \<open>
  C5. \<open>canShowOnlyRequiredFields\<close> is true if and only if strictly more than one platform
  destination has its enabled flag set and the advancedMode flag is off; in every other
  combination (no or one enabled destination, or advancedMode on) it is false. The
  destinations are the properties of an object, so their keys are distinct.
\<close>

theorem canShowOnlyRequiredFields_iff:
  assumes "distinct (map fst (destinations s))"
  shows "canShowOnlyRequiredFields s \<longleftrightarrow>
           1 < card {p. \<exists>d. map_of (destinations s) p = Some d \<and> enabled d} \<and> \<not> advancedMode s"
  using enabled_keys_card [OF assms]
  by (simp add: canShowOnlyRequiredFields_def BaseEditStreamInfo_enabledPlatforms_def)

text \<open>
  Two enabled destinations without advanced mode; the same with advanced mode; one
  enabled destination; none.
\<close>

theorem canShowOnlyRequiredFields_iff_witness:
  "(distinct (map fst (destinations (example_settings False))) \<and>
    canShowOnlyRequiredFields (example_settings False) \<and>
    1 < card {p. \<exists>d. map_of (destinations (example_settings False)) p = Some d \<and> enabled d}) \<and>
   (distinct (map fst (destinations (example_settings True))) \<and>
    \<not> canShowOnlyRequiredFields (example_settings True)) \<and>
   (distinct (map fst (destinations example_settings_twitch_only)) \<and>
    \<not> canShowOnlyRequiredFields example_settings_twitch_only \<and>
    \<not> 1 < card {p. \<exists>d. map_of (destinations example_settings_twitch_only) p = Some d \<and> enabled d}) \<and>
   (distinct (map fst (destinations \<lparr>destinations = [], advancedMode = False\<rparr>)) \<and>
    \<not> canShowOnlyRequiredFields \<lparr>destinations = [], advancedMode = False\<rparr>)"
proof -
  have d2: "distinct (map fst (destinations (example_settings b)))" for b
    by (simp add: example_settings_def)
  have d1: "distinct (map fst (destinations example_settings_twitch_only))"
    by (simp add: example_settings_twitch_only_def)
  have d0: "distinct (map fst (destinations \<lparr>destinations = [], advancedMode = False\<rparr>))"
    by simp
  have c2: "canShowOnlyRequiredFields (example_settings False)"
    by (simp add: canShowOnlyRequiredFields_def BaseEditStreamInfo_enabledPlatforms_def
        example_settings_def example_twitch_def example_youtube_def)
  have c1: "\<not> canShowOnlyRequiredFields example_settings_twitch_only"
    by (simp add: canShowOnlyRequiredFields_def BaseEditStreamInfo_enabledPlatforms_def
        example_settings_twitch_only_def example_twitch_def)
  have a2: "advancedMode (example_settings True)"
    by (simp add: example_settings_def)
  have a1: "\<not> advancedMode example_settings_twitch_only"
    by (simp add: example_settings_twitch_only_def)
  show ?thesis
    using canShowOnlyRequiredFields_iff [OF d2 [of False]]
      canShowOnlyRequiredFields_iff [OF d2 [of True]]
      canShowOnlyRequiredFields_iff [OF d1]
      canShowOnlyRequiredFields_iff [OF d0]
      d2 d1 c2 c1 a2 a1
    by simp
qed

section \<open>Selecting a broadcast\<close>

text \<open>
  C4. The selected broadcast id is the \<open>broadcastId\<close> of the youtube destination. If no
  fetched broadcast has that id, the handler is a silent no-op: it returns normally, without
  an exception, and the component, and with it the title and the description of the
  youtube destination, is as before. If some broadcast has that id, the handler returns
  normally and the youtube destination is the old one with title and description
  overwritten by the snippet title and description of the broadcast with that id that
  \<open>find\<close> selects, the first one in the list.
\<close>

theorem onSelectBroadcastHandler_selection:
  "(\<forall>ytSettings.
      map_of (destinations (settings c)) Youtube = Some ytSettings \<and>
      (\<forall>b \<in> set (broadcasts c). id_broadcast b \<noteq> broadcastId ytSettings) \<longrightarrow>
        onSelectBroadcastHandler c = (Inr (), c)) \<and>
   (\<forall>ytSettings b.
      map_of (destinations (settings c)) Youtube = Some ytSettings \<and>
      find (\<lambda>b. id_broadcast b = broadcastId ytSettings) (broadcasts c) = Some b \<longrightarrow>
        fst (onSelectBroadcastHandler c) = Inr () \<and>
        map_of (destinations (settings (snd (onSelectBroadcastHandler c)))) Youtube =
          Some (ytSettings\<lparr>title := snippet.title (snippet b),
                           description := snippet.description (snippet b)\<rparr>)) \<and>
   (\<forall>ytSettings.
      map_of (destinations (settings c)) Youtube = Some ytSettings \<and>
      (\<exists>b \<in> set (broadcasts c). id_broadcast b = broadcastId ytSettings) \<longrightarrow>
        (\<exists>b. b \<in> set (broadcasts c) \<and> id_broadcast b = broadcastId ytSettings \<and>
           fst (onSelectBroadcastHandler c) = Inr () \<and>
           map_of (destinations (settings (snd (onSelectBroadcastHandler c)))) Youtube =
             Some (ytSettings\<lparr>title := snippet.title (snippet b),
                              description := snippet.description (snippet b)\<rparr>)))"
proof -
  have none: "onSelectBroadcastHandler c = (Inr (), c)"
    if yt: "map_of (destinations (settings c)) Youtube = Some ytSettings"
      and no: "\<forall>b \<in> set (broadcasts c). id_broadcast b \<noteq> broadcastId ytSettings"
    for ytSettings
  proof -
    from no have "find (\<lambda>b. id_broadcast b = broadcastId ytSettings) (broadcasts c) = None"
      by (simp add: find_None_iff)
    with yt show ?thesis
      by (simp add: onSelectBroadcastHandler_def)
  qed
  have some: "fst (onSelectBroadcastHandler c) = Inr () \<and>
      map_of (destinations (settings (snd (onSelectBroadcastHandler c)))) Youtube =
        Some (ytSettings\<lparr>title := snippet.title (snippet b),
                         description := snippet.description (snippet b)\<rparr>)"
    if "map_of (destinations (settings c)) Youtube = Some ytSettings"
      and "find (\<lambda>b. id_broadcast b = broadcastId ytSettings) (broadcasts c) = Some b"
    for ytSettings b
    using that by (simp add: onSelectBroadcastHandler_def update_conv')
  have ex: "\<exists>b. b \<in> set (broadcasts c) \<and> id_broadcast b = broadcastId ytSettings \<and>
      find (\<lambda>b. id_broadcast b = broadcastId ytSettings) (broadcasts c) = Some b"
    if "\<exists>b \<in> set (broadcasts c). id_broadcast b = broadcastId ytSettings"
    for ytSettings :: destination
  proof -
    let ?P = "\<lambda>b. id_broadcast b = broadcastId ytSettings"
    from that have "find ?P (broadcasts c) \<noteq> None"
      by (auto simp: find_None_iff)
    then obtain b where b: "find ?P (broadcasts c) = Some b"
      by blast
    then have "b \<in> set (broadcasts c)" "?P b"
      by (auto simp: find_Some_iff)
    with b show ?thesis by blast
  qed
  have match: "\<exists>b. b \<in> set (broadcasts c) \<and> id_broadcast b = broadcastId ytSettings \<and>
      fst (onSelectBroadcastHandler c) = Inr () \<and>
      map_of (destinations (settings (snd (onSelectBroadcastHandler c)))) Youtube =
        Some (ytSettings\<lparr>title := snippet.title (snippet b),
                         description := snippet.description (snippet b)\<rparr>)"
    if yt: "map_of (destinations (settings c)) Youtube = Some ytSettings"
      and "\<exists>b \<in> set (broadcasts c). id_broadcast b = broadcastId ytSettings"
    for ytSettings
  proof -
    from ex [OF that(2)] obtain b where b: "b \<in> set (broadcasts c)"
      "id_broadcast b = broadcastId ytSettings"
      "find (\<lambda>b. id_broadcast b = broadcastId ytSettings) (broadcasts c) = Some b"
      by blast
    with some [OF yt b(3)] show ?thesis by blast
  qed
  show ?thesis
    using none some match by blast
qed

text \<open>
  The selected id \<open>b2\<close> is the id of the second fetched broadcast, whose title and
  description replace the old ones; with only the first broadcast fetched the handler
  returns normally and nothing changes.
\<close>

theorem onSelectBroadcastHandler_selection_witness:
  "map_of (destinations (settings (example_YoutubeEditStreamInfo (example_settings False) example_broadcasts)))
      Youtube = Some (example_youtube True) \<and>
   find (\<lambda>b. id_broadcast b = broadcastId (example_youtube True))
      (broadcasts (example_YoutubeEditStreamInfo (example_settings False) example_broadcasts))
     = Some \<lparr>id_broadcast = ''b2'', snippet = \<lparr>snippet.title = ''Second'', snippet.description = ''Two''\<rparr>\<rparr> \<and>
   fst (onSelectBroadcastHandler
      (example_YoutubeEditStreamInfo (example_settings False) example_broadcasts)) = Inr () \<and>
   map_of (destinations (settings (snd (onSelectBroadcastHandler
      (example_YoutubeEditStreamInfo (example_settings False) example_broadcasts))))) Youtube =
     Some \<lparr>enabled = True, title = ''Second'', description = ''Two'', broadcastId = ''b2''\<rparr> \<and>
   onSelectBroadcastHandler
      (example_YoutubeEditStreamInfo (example_settings False) (take 1 example_broadcasts)) =
     (Inr (), example_YoutubeEditStreamInfo (example_settings False) (take 1 example_broadcasts))"
proof -
  let ?c = "example_YoutubeEditStreamInfo (example_settings False) example_broadcasts"
  let ?c1 = "example_YoutubeEditStreamInfo (example_settings False) (take 1 example_broadcasts)"
  have yt: "map_of (destinations (settings ?c)) Youtube = Some (example_youtube True)"
    by (simp add: example_YoutubeEditStreamInfo_def example_settings_def)
  have yt1: "map_of (destinations (settings ?c1)) Youtube = Some (example_youtube True)"
    by (simp add: example_YoutubeEditStreamInfo_def example_settings_def)
  have found: "find (\<lambda>b. id_broadcast b = broadcastId (example_youtube True)) (broadcasts ?c)
      = Some \<lparr>id_broadcast = ''b2'', snippet = \<lparr>snippet.title = ''Second'', snippet.description = ''Two''\<rparr>\<rparr>"
    by (simp add: example_YoutubeEditStreamInfo_def example_broadcasts_def example_youtube_def)
  have missing: "\<forall>b \<in> set (broadcasts ?c1). id_broadcast b \<noteq> broadcastId (example_youtube True)"
    by (simp add: example_YoutubeEditStreamInfo_def example_broadcasts_def example_youtube_def)
  have overwritten: "fst (onSelectBroadcastHandler ?c) = Inr () \<and>
      map_of (destinations (settings (snd (onSelectBroadcastHandler ?c)))) Youtube =
        Some ((example_youtube True)\<lparr>title := ''Second'', description := ''Two''\<rparr>)"
    using onSelectBroadcastHandler_selection [of ?c] yt found by auto
  have unchanged: "onSelectBroadcastHandler ?c1 = (Inr (), ?c1)"
    using onSelectBroadcastHandler_selection [of ?c1] yt1 missing by blast
  show ?thesis
    using yt found overwritten unchanged by (simp add: example_youtube_def)
qed

text \<open>
  C10. The handler writes at most the title and the description of the youtube
  destination. Whatever the settings and the fetched broadcasts, and whether or not a
  broadcast matches (or the handler throws), after it: the advancedMode flag is the same,
  the destinations object has the same keys in the same order, every platform other than
  youtube has the same destination record, the youtube destination is present or absent as
  before with the same enabled flag and the same broadcastId, and the rest of the
  component (fetched broadcasts, loaded flag, view) is the same.
\<close>

theorem onSelectBroadcastHandler_frame:
  "advancedMode (settings (snd (onSelectBroadcastHandler c))) = advancedMode (settings c) \<and>
   map fst (destinations (settings (snd (onSelectBroadcastHandler c))))
     = map fst (destinations (settings c)) \<and>
   (\<forall>platform. platform \<noteq> Youtube \<longrightarrow>
      map_of (destinations (settings (snd (onSelectBroadcastHandler c)))) platform
        = map_of (destinations (settings c)) platform) \<and>
   map_option enabled (map_of (destinations (settings (snd (onSelectBroadcastHandler c)))) Youtube)
     = map_option enabled (map_of (destinations (settings c)) Youtube) \<and>
   map_option broadcastId (map_of (destinations (settings (snd (onSelectBroadcastHandler c)))) Youtube)
     = map_option broadcastId (map_of (destinations (settings c)) Youtube) \<and>
   broadcasts (snd (onSelectBroadcastHandler c)) = broadcasts c \<and>
   broadcastsLoaded (snd (onSelectBroadcastHandler c)) = broadcastsLoaded c \<and>
   streamingService_views (snd (onSelectBroadcastHandler c)) = streamingService_views c"
proof (cases "map_of (destinations (settings c)) Youtube")
  case None
  then show ?thesis
    by (simp add: onSelectBroadcastHandler_def)
next
  case (Some ytSettings)
  then have key: "Youtube \<in> set (map fst (destinations (settings c)))"
    by (metis domI dom_map_of_conv_image_fst set_map)
  show ?thesis
  proof (cases "find (\<lambda>b. id_broadcast b = broadcastId ytSettings) (broadcasts c)")
    case None
    with Some show ?thesis
      by (simp add: onSelectBroadcastHandler_def)
  next
    case (Some selectedBroadcast)
    with \<open>map_of (destinations (settings c)) Youtube = Some ytSettings\<close> key show ?thesis
      by (simp add: onSelectBroadcastHandler_def update_conv' update_keys)
  qed
qed

text \<open>
  At the example, where the second broadcast matches: the twitch destination, a platform
  other than youtube, is as before.
\<close>

theorem onSelectBroadcastHandler_frame_witness:
  "Twitch \<noteq> Youtube \<and>
   map_of (destinations (settings (snd (onSelectBroadcastHandler
      (example_YoutubeEditStreamInfo (example_settings False) example_broadcasts))))) Twitch
     = Some (example_twitch True) \<and>
   advancedMode (settings (snd (onSelectBroadcastHandler
      (example_YoutubeEditStreamInfo (example_settings False) example_broadcasts)))) = False"
  using onSelectBroadcastHandler_frame
    [of "example_YoutubeEditStreamInfo (example_settings False) example_broadcasts"]
  by (simp add: example_YoutubeEditStreamInfo_def example_settings_def)

section \<open>Rendering the youtube editor\<close>

text \<open>
  C8, as the code has it. When \<open>canShowOnlyRequiredFields\<close> is true, the editor renders
  nothing: \<open>render\<close> returns \<open>false\<close>. When the flag is false and the settings have a youtube
  destination, \<open>render\<close> returns the form: a \<open>ValidatedForm\<close> holding the group with the
  broadcast selector, bound to the broadcast id of the youtube destination, and the
  common platform fields for youtube.
\<close>

theorem YoutubeEditStreamInfo_render_gate:
  "(canShowOnlyRequiredFields (settings c) \<longrightarrow>
      YoutubeEditStreamInfo_render t c = Inr (VBool False)) \<and>
   (\<not> canShowOnlyRequiredFields (settings c) \<and>
    map_of (destinations (settings c)) Youtube = Some ytSettings \<longrightarrow>
      YoutubeEditStreamInfo_render t c =
        Inr (VElem ''ValidatedForm'' [(''onInput'', AMethod ''emitInput'')]
          [VElem ''HFormGroup'' [(''title'', AStr (t ''Event'' []))]
             [VElem ''BroadcastInput''
                [(''onInput'', AMethod ''onSelectBroadcastHandler''),
                 (''vModel'', AStr (broadcastId ytSettings)),
                 (''metadata'', formMetadata_event c)]
                []],
           VElem ''CommonPlatformFields''
             [(''vModel'', ASettings (settings c)), (''platform'', AStr ''youtube'')]
             []]))"
  by (simp add: YoutubeEditStreamInfo_render_def)

text \<open>
  Two enabled destinations: nothing without advanced mode, the form with advanced mode.
\<close>

theorem YoutubeEditStreamInfo_render_gate_witness:
  "canShowOnlyRequiredFields (settings (example_YoutubeEditStreamInfo (example_settings False) [])) \<and>
   YoutubeEditStreamInfo_render example_t
     (example_YoutubeEditStreamInfo (example_settings False) []) = Inr (VBool False) \<and>
   \<not> canShowOnlyRequiredFields (settings (example_YoutubeEditStreamInfo (example_settings True) [])) \<and>
   map_of (destinations (settings (example_YoutubeEditStreamInfo (example_settings True) []))) Youtube
     = Some (example_youtube True) \<and>
   (\<exists>attrs children.
      YoutubeEditStreamInfo_render example_t
        (example_YoutubeEditStreamInfo (example_settings True) []) =
      Inr (VElem ''ValidatedForm'' attrs children))"
proof -
  let ?c = "example_YoutubeEditStreamInfo (example_settings False) []"
  let ?d = "example_YoutubeEditStreamInfo (example_settings True) []"
  have on: "canShowOnlyRequiredFields (settings ?c)"
    by (simp add: canShowOnlyRequiredFields_def BaseEditStreamInfo_enabledPlatforms_def
        example_YoutubeEditStreamInfo_def example_settings_def example_twitch_def
        example_youtube_def)
  have off: "\<not> canShowOnlyRequiredFields (settings ?d)"
    by (simp add: canShowOnlyRequiredFields_def example_YoutubeEditStreamInfo_def
        example_settings_def)
  have yt: "map_of (destinations (settings ?d)) Youtube = Some (example_youtube True)"
    by (simp add: example_YoutubeEditStreamInfo_def example_settings_def)
  show ?thesis
    using YoutubeEditStreamInfo_render_gate [where c = ?c and t = example_t]
      YoutubeEditStreamInfo_render_gate
        [where c = ?d and t = example_t and ytSettings = "example_youtube True"]
      on off yt
    by simp
qed

text \<open>
  That the form is rendered whenever the flag is false does not hold for settings without
  a youtube destination: the flag is false (one enabled destination)
  and \<open>render\<close> throws a TypeError at \<^verbatim>\<open>destinations.youtube.broadcastId\<close>.
\<close>

theorem YoutubeEditStreamInfo_render_counterexample:
  "\<not> canShowOnlyRequiredFields (settings (example_YoutubeEditStreamInfo example_settings_twitch_only [])) \<and>
   YoutubeEditStreamInfo_render example_t (example_YoutubeEditStreamInfo example_settings_twitch_only [])
     = Inl TypeError"
  by (simp add: YoutubeEditStreamInfo_render_def canShowOnlyRequiredFields_def
      BaseEditStreamInfo_enabledPlatforms_def example_YoutubeEditStreamInfo_def
      example_settings_twitch_only_def example_twitch_def)

section \<open>The icon and the classes of a stage\<close>

text \<open>The class binding of \<open>renderCheck\<close>, computed for any two keys and values.\<close>

lemma class_object_two:
  "class_object [(k1, b1), (k2, b2)] =
     (if property_key k1 = property_key k2 then (if b2 then [property_key k1] else [])
      else (if b1 then [property_key k1] else []) @ (if b2 then [property_key k2] else []))"
  by (simp add: class_object_def object_literal_def)

lemma icons_renderYoutubePercentage: "icons (renderYoutubePercentage styles c) = []"
  by (simp add: renderYoutubePercentage_def)

lemma icons_CheckMark_render:
  "icons (CheckMark_render styles state) =
     (case state of
        NotStarted \<Rightarrow> [VElem ''i'' [(''class'', AClass [''fa'', ''fa-circle''])] []]
      | Pending \<Rightarrow> [VElem ''i'' [(''class'', AClass [''fa'', ''fa-spinner'', ''fa-pulse''])] []]
      | Done \<Rightarrow> [VElem ''i'' [(''key'', AStr ''done''), (''class'', AClass [''fa'', ''fa-check''])] []]
      | Failed \<Rightarrow> [VElem ''i'' [(''class'', AClass [''fa'', ''fa-times''])] []])"
  by (cases state) (simp_all add: CheckMark_render_def)

lemma icons_renderCheck:
  "icons (renderCheck styles c title' state r) = icons (CheckMark_render styles state)"
  by (simp add: renderCheck_def icons_renderYoutubePercentage)

text \<open>
  C2. For each of the four statuses the rendered stage has the icon and the classes of
  the fixed mapping. 'not-started': a circle icon, and the \<open>notStarted\<close> class of the style
  sheet on the stage (the style sheet naming its \<open>notStarted\<close> and \<open>itemError\<close> classes
  differently). 'pending': a spinner with the pulse animation, no class on the stage.
  'done': a checkmark, and neither the \<open>notStarted\<close> nor the \<open>itemError\<close> class: no class at
  all on the stage. 'failed': a cross, and the \<open>itemError\<close> class. In each case there is
  exactly that one icon, inside the check mark, whose classes are \<open>check\<close> and the class
  named like the status.
\<close>

theorem renderCheck_mapping:
  "(property_key (styles ''notStarted'') \<noteq> property_key (styles ''itemError'') \<longrightarrow>
      classes_of (renderCheck styles c title' NotStarted r) = [property_key (styles ''notStarted'')]) \<and>
   icons (renderCheck styles c title' NotStarted r) =
     [VElem ''i'' [(''class'', AClass [''fa'', ''fa-circle''])] []] \<and>
   classes_of (renderCheck styles c title' Pending r) = [] \<and>
   icons (renderCheck styles c title' Pending r) =
     [VElem ''i'' [(''class'', AClass [''fa'', ''fa-spinner'', ''fa-pulse''])] []] \<and>
   classes_of (renderCheck styles c title' Done r) = [] \<and>
   icons (renderCheck styles c title' Done r) =
     [VElem ''i'' [(''key'', AStr ''done''), (''class'', AClass [''fa'', ''fa-check''])] []] \<and>
   classes_of (renderCheck styles c title' Failed r) = [property_key (styles ''itemError'')] \<and>
   icons (renderCheck styles c title' Failed r) =
     [VElem ''i'' [(''class'', AClass [''fa'', ''fa-times''])] []] \<and>
   hd (children_of (renderCheck styles c title' state r)) = CheckMark_render styles state \<and>
   classes_of (CheckMark_render styles state) = cx [styles ''check'', styles (state_string state)]"
proof -
  have classes: "classes_of (renderCheck styles c title' state r) =
      class_object [(styles ''notStarted'', state = NotStarted), (styles ''itemError'', state = Failed)]"
    for state
    by (simp add: renderCheck_def)
  have "classes_of (CheckMark_render styles state) = cx [styles ''check'', styles (state_string state)]"
    by (simp add: CheckMark_render_def)
  moreover have "hd (children_of (renderCheck styles c title' state r)) = CheckMark_render styles state"
    by (simp add: renderCheck_def)
  ultimately show ?thesis
    by (simp add: classes class_object_two icons_renderCheck icons_CheckMark_render)
qed

text \<open>With the example style sheet, the four statuses of a stage titled \<open>Stage\<close>.\<close>

theorem renderCheck_mapping_witness:
  "property_key (example_styles ''notStarted'') \<noteq> property_key (example_styles ''itemError'') \<and>
   classes_of (renderCheck example_styles (example_GoLiveChecklist None ''live'' False)
      ''Stage'' NotStarted False) = [''notStarted_3''] \<and>
   classes_of (renderCheck example_styles (example_GoLiveChecklist None ''live'' False)
      ''Stage'' Done False) = [] \<and>
   classes_of (renderCheck example_styles (example_GoLiveChecklist None ''live'' False)
      ''Stage'' Failed False) = [''itemError_4''] \<and>
   classes_of (CheckMark_render example_styles Done) = [''check_5'', ''done_7'']"
proof -
  have keys: "property_key (example_styles ''notStarted'') = ''notStarted_3''"
    "property_key (example_styles ''itemError'') = ''itemError_4''"
    by (simp_all add: property_key_def example_styles_def)
  have cx: "cx [example_styles ''check'', example_styles ''done''] = [''check_5'', ''done_7'']"
    by (simp add: cx_def example_styles_def)
  show ?thesis
    using renderCheck_mapping
      [where styles = example_styles and c = "example_GoLiveChecklist None ''live'' False"
         and title' = "''Stage''" and r = False and state = Done]
    by (simp add: keys cx)
qed

section \<open>The stages of the checklist\<close>

text \<open>A loop whose body never throws returns the list of its results.\<close>

lemma map_result_Inr:
  assumes "\<And>x. f x = Inr (g x)"
  shows "map_result f xs = Inr (map g xs)"
  by (induction xs) (simp_all add: assms)

lemma getPlatformDisplayName_Inr:
  "getPlatformDisplayName S platform = Inr (displayName (platform_instance S platform))"
  by (cases platform) (simp_all add: getPlatformDisplayName_def getPlatformService_def)

lemma platform_checks_Inr:
  "map_result
     (\<lambda>platform.
        case getPlatformDisplayName S platform of
          Inl e \<Rightarrow> Inl e
        | Inr name \<Rightarrow> Inr (F platform name))
     platforms
   = Inr (map (\<lambda>platform. F platform (displayName (platform_instance S platform))) platforms)"
  by (rule map_result_Inr) (simp add: getPlatformDisplayName_Inr)

text \<open>
  \<open>render\<close> always returns a tree, and the children of its \<^verbatim>\<open><ul>\<close> are these six: the
  array with one stage for each enabled platform, and the five conditional stages.
\<close>

lemma render_ul_children:
  "\<exists>tree. render styles t S c = Inr tree \<and>
     ul_children tree =
       [VArray (map (\<lambda>platform.
           renderCheck styles c
             (t ''Update settings for %{platform}''
                [(''platform'', displayName (platform_instance S platform))])
             (checklist_at (checklist (info (view c))) platform) False)
           (enabledPlatforms (view c))),
        if \<not> isUpdateMode c \<and> isMutliplatformMode (view c)
          then renderCheck styles c (t ''Configure the Restream service'' [])
                 (setupRestream (checklist (info (view c)))) False
          else VBool False,
        if useOptimizedProfile c \<and> \<not> isUpdateMode c
          then renderCheck styles c (t ''Apply optimized settings'' [])
                 (applyOptimizedSettings (checklist (info (view c)))) False
          else VBool False,
        if \<not> isUpdateMode c
          then renderCheck styles c (t ''Start video transmission'' [])
                 (startVideoTransmission (checklist (info (view c)))) False
          else VBool False,
        case (if isUpdateMode c then Some False
              else map_option enabled (map_of (destinations (goLiveSettings (view c))) Youtube)) of
          None \<Rightarrow> VUndefined
        | Some False \<Rightarrow> VBool False
        | Some True \<Rightarrow>
            renderCheck styles c (t ''Publish Youtube broadcast'' [])
              (publishYoutubeBroadcast (checklist (info (view c)))) True,
        if tweetWhenGoingLive c
          then renderCheck styles c (t ''Post a tweet'' []) (postTweet (checklist (info (view c)))) False
          else VBool False]"
  by (simp add: render_def Let_def platform_checks_Inr ul_children_def)

text \<open>
  What a stage shows: it is an \<^verbatim>\<open><li>\<close> element; its children are the check mark, which
  has no text, the title, and the percentage or \<open>false\<close>; so its text is its title, followed
  by the text of the percentage if it has one.
\<close>

lemma is_element_renderCheck: "is_element (renderCheck styles c title' state r)"
  by (simp add: renderCheck_def)

lemma tag_of_renderCheck: "tag_of (renderCheck styles c title' state r) = ''li''"
  by (simp add: renderCheck_def)

lemma text_content_CheckMark_render: "text_content (CheckMark_render styles state) = []"
  by (cases state) (simp_all add: CheckMark_render_def)

lemma title_of_renderCheck:
  "children_of (renderCheck styles c title' state r) ! 1 = VText title'"
  by (simp add: renderCheck_def)

lemma text_content_renderCheck:
  "text_content (renderCheck styles c title' state r) =
     title' @ (if r then text_content (renderYoutubePercentage styles c) else [])"
  by (simp add: renderCheck_def text_content_CheckMark_render)

text \<open>
  C3. In update mode \<open>render\<close> returns a tree in which none of the stages `configure
  restream', `apply optimized settings', `start video transmission' and `publish youtube
  broadcast' is rendered: each of their four places holds \<open>false\<close>. The tree still has one
  `update settings' stage for each enabled platform, in the order of \<open>enabledPlatforms\<close>:
  as many stages as enabled platforms, each an \<^verbatim>\<open><li>\<close> element whose text is the message
  `Update settings for %{platform}' with the display name of the platform, and which is
  rendered in the state the checklist has for the platform.
\<close>

theorem render_update_mode:
  assumes "isUpdateMode c"
  shows
    "\<exists>tree platformChecks.
       render styles t S c = Inr tree \<and>
       ul_children tree =
         [VArray platformChecks,
          VBool False,
          VBool False,
          VBool False,
          VBool False,
          if tweetWhenGoingLive c
            then renderCheck styles c (t ''Post a tweet'' []) (postTweet (checklist (info (view c)))) False
            else VBool False] \<and>
       length platformChecks = length (enabledPlatforms (view c)) \<and>
       map is_element platformChecks = map (\<lambda>platform. True) (enabledPlatforms (view c)) \<and>
       map tag_of platformChecks = map (\<lambda>platform. ''li'') (enabledPlatforms (view c)) \<and>
       map text_content platformChecks =
         map (\<lambda>platform.
                t ''Update settings for %{platform}''
                  [(''platform'', displayName (platform_instance S platform))])
           (enabledPlatforms (view c)) \<and>
       platformChecks =
         map (\<lambda>platform.
                renderCheck styles c
                  (t ''Update settings for %{platform}''
                     [(''platform'', displayName (platform_instance S platform))])
                  (checklist_at (checklist (info (view c))) platform) False)
           (enabledPlatforms (view c))"
proof -
  let ?checks =
    "map (\<lambda>platform.
            renderCheck styles c
              (t ''Update settings for %{platform}''
                 [(''platform'', displayName (platform_instance S platform))])
              (checklist_at (checklist (info (view c))) platform) False)
       (enabledPlatforms (view c))"
  obtain tree where tree: "render styles t S c = Inr tree"
    and ul: "ul_children tree =
         [VArray ?checks,
          VBool False,
          VBool False,
          VBool False,
          VBool False,
          if tweetWhenGoingLive c
            then renderCheck styles c (t ''Post a tweet'' []) (postTweet (checklist (info (view c)))) False
            else VBool False]"
    using render_ul_children [of styles t S c] assms by auto
  have "length ?checks = length (enabledPlatforms (view c))"
    by simp
  moreover have "map is_element ?checks = map (\<lambda>platform. True) (enabledPlatforms (view c))"
    by (simp add: is_element_renderCheck)
  moreover have "map tag_of ?checks = map (\<lambda>platform. ''li'') (enabledPlatforms (view c))"
    by (simp add: tag_of_renderCheck)
  moreover have "map text_content ?checks =
      map (\<lambda>platform.
             t ''Update settings for %{platform}''
               [(''platform'', displayName (platform_instance S platform))])
        (enabledPlatforms (view c))"
    by (simp add: text_content_renderCheck)
  ultimately show ?thesis
    using tree ul by blast
qed

text \<open>
  The example component in update mode: two platform stages, for twitch (done) and for
  youtube (pending), four times \<open>false\<close>, and the tweet stage.
\<close>

theorem render_update_mode_witness:
  "isUpdateMode (example_GoLiveChecklist None ''live'' True) \<and>
   (\<exists>tree platformChecks.
      render example_styles example_t example_services
        (example_GoLiveChecklist None ''live'' True) = Inr tree \<and>
      ul_children tree =
        [VArray platformChecks,
         VBool False,
         VBool False,
         VBool False,
         VBool False,
         renderCheck example_styles (example_GoLiveChecklist None ''live'' True)
           ''Post a tweet'' Failed False] \<and>
      map is_element platformChecks = [True, True] \<and>
      map text_content platformChecks =
        [''Update settings for %{platform} [platform=Twitch]'',
         ''Update settings for %{platform} [platform=YouTube]''] \<and>
      platformChecks =
        [renderCheck example_styles (example_GoLiveChecklist None ''live'' True)
           ''Update settings for %{platform} [platform=Twitch]'' Done False,
         renderCheck example_styles (example_GoLiveChecklist None ''live'' True)
           ''Update settings for %{platform} [platform=YouTube]'' Pending False])"
proof -
  let ?c = "example_GoLiveChecklist None ''live'' True"
  have update: "isUpdateMode ?c"
    by (simp add: example_GoLiveChecklist_def)
  have fields: "enabledPlatforms (view ?c) = [Twitch, Youtube]"
    "checklist (info (view ?c)) = example_checklist"
    "tweetWhenGoingLive ?c"
    by (simp_all add: example_GoLiveChecklist_def example_view_def)
  have states: "twitch example_checklist = Done" "youtube example_checklist = Pending"
    "postTweet example_checklist = Failed"
    by (simp_all add: example_checklist_def)
  have names: "displayName (TwitchService_instance example_services) = ''Twitch''"
    "displayName (YoutubeService_instance example_services) = ''YouTube''"
    by (simp_all add: example_services_def)
  show ?thesis
    using render_update_mode [OF update, of example_styles example_t example_services] update
    by (simp add: fields states names example_t_def) blast
qed

text \<open>
  C7. \<open>render\<close> always returns a tree, and each conditional stage is rendered exactly
  under its gate. The place of `configure restream' holds an element if and only if
  multi-platform mode is on and update mode is off; the place of `apply optimized
  settings' if and only if the optimized profile is in use and update mode is off; the
  place of `publish Youtube broadcast' if and only if update mode is off and the settings
  have a youtube destination that is enabled. The element is then an \<^verbatim>\<open><li>\<close> whose text
  is the title of that stage (`Configure the Restream service', `Apply optimized
  settings'; for the youtube stage `Publish Youtube broadcast', followed by the
  percentage), rendered in the state the checklist has for the stage.
\<close>

theorem render_stage_gates:
  "\<exists>tree. render styles t S c = Inr tree \<and>
     length (ul_children tree) = 6 \<and>
     (is_element (ul_children tree ! 1) \<longleftrightarrow> isMutliplatformMode (view c) \<and> \<not> isUpdateMode c) \<and>
     (is_element (ul_children tree ! 1) \<longrightarrow>
        tag_of (ul_children tree ! 1) = ''li'' \<and>
        text_content (ul_children tree ! 1) = t ''Configure the Restream service'' [] \<and>
        ul_children tree ! 1 =
          renderCheck styles c (t ''Configure the Restream service'' [])
            (setupRestream (checklist (info (view c)))) False) \<and>
     (is_element (ul_children tree ! 2) \<longleftrightarrow> useOptimizedProfile c \<and> \<not> isUpdateMode c) \<and>
     (is_element (ul_children tree ! 2) \<longrightarrow>
        tag_of (ul_children tree ! 2) = ''li'' \<and>
        text_content (ul_children tree ! 2) = t ''Apply optimized settings'' [] \<and>
        ul_children tree ! 2 =
          renderCheck styles c (t ''Apply optimized settings'' [])
            (applyOptimizedSettings (checklist (info (view c)))) False) \<and>
     (is_element (ul_children tree ! 4) \<longleftrightarrow>
        \<not> isUpdateMode c \<and>
        (\<exists>d. map_of (destinations (goLiveSettings (view c))) Youtube = Some d \<and> enabled d)) \<and>
     (is_element (ul_children tree ! 4) \<longrightarrow>
        tag_of (ul_children tree ! 4) = ''li'' \<and>
        children_of (ul_children tree ! 4) ! 1 = VText (t ''Publish Youtube broadcast'' []) \<and>
        text_content (ul_children tree ! 4) =
          t ''Publish Youtube broadcast'' [] @ text_content (renderYoutubePercentage styles c) \<and>
        ul_children tree ! 4 =
          renderCheck styles c (t ''Publish Youtube broadcast'' [])
            (publishYoutubeBroadcast (checklist (info (view c)))) True)"
proof -
  obtain tree where tree: "render styles t S c = Inr tree"
    and ul: "ul_children tree =
       [VArray (map (\<lambda>platform.
           renderCheck styles c
             (t ''Update settings for %{platform}''
                [(''platform'', displayName (platform_instance S platform))])
             (checklist_at (checklist (info (view c))) platform) False)
           (enabledPlatforms (view c))),
        if \<not> isUpdateMode c \<and> isMutliplatformMode (view c)
          then renderCheck styles c (t ''Configure the Restream service'' [])
                 (setupRestream (checklist (info (view c)))) False
          else VBool False,
        if useOptimizedProfile c \<and> \<not> isUpdateMode c
          then renderCheck styles c (t ''Apply optimized settings'' [])
                 (applyOptimizedSettings (checklist (info (view c)))) False
          else VBool False,
        if \<not> isUpdateMode c
          then renderCheck styles c (t ''Start video transmission'' [])
                 (startVideoTransmission (checklist (info (view c)))) False
          else VBool False,
        case (if isUpdateMode c then Some False
              else map_option enabled (map_of (destinations (goLiveSettings (view c))) Youtube)) of
          None \<Rightarrow> VUndefined
        | Some False \<Rightarrow> VBool False
        | Some True \<Rightarrow>
            renderCheck styles c (t ''Publish Youtube broadcast'' [])
              (publishYoutubeBroadcast (checklist (info (view c)))) True,
        if tweetWhenGoingLive c
          then renderCheck styles c (t ''Post a tweet'' []) (postTweet (checklist (info (view c)))) False
          else VBool False]"
    using render_ul_children [of styles t S c] by blast
  have len: "length (ul_children tree) = 6"
    by (simp add: ul)
  have restream: "ul_children tree ! 1 =
      (if \<not> isUpdateMode c \<and> isMutliplatformMode (view c)
       then renderCheck styles c (t ''Configure the Restream service'' [])
              (setupRestream (checklist (info (view c)))) False
       else VBool False)"
    by (simp add: ul)
  have optimized: "ul_children tree ! 2 =
      (if useOptimizedProfile c \<and> \<not> isUpdateMode c
       then renderCheck styles c (t ''Apply optimized settings'' [])
              (applyOptimizedSettings (checklist (info (view c)))) False
       else VBool False)"
    by (simp add: ul)
  have publish: "ul_children tree ! 4 =
      (case (if isUpdateMode c then Some False
             else map_option enabled (map_of (destinations (goLiveSettings (view c))) Youtube)) of
         None \<Rightarrow> VUndefined
       | Some False \<Rightarrow> VBool False
       | Some True \<Rightarrow>
           renderCheck styles c (t ''Publish Youtube broadcast'' [])
             (publishYoutubeBroadcast (checklist (info (view c)))) True)"
    by (simp add: ul)
  have g1: "is_element (ul_children tree ! 1) \<longleftrightarrow> isMutliplatformMode (view c) \<and> \<not> isUpdateMode c"
    unfolding restream by (auto simp: is_element_renderCheck)
  have e1: "ul_children tree ! 1 =
      renderCheck styles c (t ''Configure the Restream service'' [])
        (setupRestream (checklist (info (view c)))) False"
    if "is_element (ul_children tree ! 1)"
    using that unfolding restream by (simp split: if_splits)
  have s1: "tag_of (ul_children tree ! 1) = ''li'' \<and>
      text_content (ul_children tree ! 1) = t ''Configure the Restream service'' []"
    if "is_element (ul_children tree ! 1)"
    unfolding e1 [OF that] by (simp add: tag_of_renderCheck text_content_renderCheck)
  have g2: "is_element (ul_children tree ! 2) \<longleftrightarrow> useOptimizedProfile c \<and> \<not> isUpdateMode c"
    unfolding optimized by (auto simp: is_element_renderCheck)
  have e2: "ul_children tree ! 2 =
      renderCheck styles c (t ''Apply optimized settings'' [])
        (applyOptimizedSettings (checklist (info (view c)))) False"
    if "is_element (ul_children tree ! 2)"
    using that unfolding optimized by (simp split: if_splits)
  have s2: "tag_of (ul_children tree ! 2) = ''li'' \<and>
      text_content (ul_children tree ! 2) = t ''Apply optimized settings'' []"
    if "is_element (ul_children tree ! 2)"
    unfolding e2 [OF that] by (simp add: tag_of_renderCheck text_content_renderCheck)
  have g4: "is_element (ul_children tree ! 4) \<longleftrightarrow>
      \<not> isUpdateMode c \<and>
      (\<exists>d. map_of (destinations (goLiveSettings (view c))) Youtube = Some d \<and> enabled d)"
    unfolding publish
    by (cases "map_of (destinations (goLiveSettings (view c))) Youtube")
      (auto simp: is_element_renderCheck split: bool.splits)
  have e4: "ul_children tree ! 4 =
      renderCheck styles c (t ''Publish Youtube broadcast'' [])
        (publishYoutubeBroadcast (checklist (info (view c)))) True"
    if "is_element (ul_children tree ! 4)"
    using that unfolding publish by (simp split: if_splits option.splits bool.splits)
  have s4: "tag_of (ul_children tree ! 4) = ''li'' \<and>
      children_of (ul_children tree ! 4) ! 1 = VText (t ''Publish Youtube broadcast'' []) \<and>
      text_content (ul_children tree ! 4) =
        t ''Publish Youtube broadcast'' [] @ text_content (renderYoutubePercentage styles c)"
    if "is_element (ul_children tree ! 4)"
    unfolding e4 [OF that]
    by (simp only: tag_of_renderCheck title_of_renderCheck text_content_renderCheck if_True simp_thms)
  show ?thesis
    using tree len g1 e1 s1 g2 e2 s2 g4 e4 s4 by (intro exI [of _ tree]) blast
qed

text \<open>
  The example component outside update mode, in multi-platform mode, with the optimized
  profile and an enabled youtube destination: all three stages are rendered.
\<close>

theorem render_stage_gates_witness:
  "\<exists>tree. render example_styles example_t example_services
        (example_GoLiveChecklist None ''live'' False) = Inr tree \<and>
     is_element (ul_children tree ! 1) \<and>
     text_content (ul_children tree ! 1) = ''Configure the Restream service'' \<and>
     ul_children tree ! 1 =
       renderCheck example_styles (example_GoLiveChecklist None ''live'' False)
         ''Configure the Restream service'' NotStarted False \<and>
     is_element (ul_children tree ! 2) \<and>
     text_content (ul_children tree ! 2) = ''Apply optimized settings'' \<and>
     ul_children tree ! 2 =
       renderCheck example_styles (example_GoLiveChecklist None ''live'' False)
         ''Apply optimized settings'' NotStarted False \<and>
     is_element (ul_children tree ! 4) \<and>
     children_of (ul_children tree ! 4) ! 1 = VText ''Publish Youtube broadcast'' \<and>
     ul_children tree ! 4 =
       renderCheck example_styles (example_GoLiveChecklist None ''live'' False)
         ''Publish Youtube broadcast'' Pending True"
proof -
  let ?c = "example_GoLiveChecklist None ''live'' False"
  have fields: "\<not> isUpdateMode ?c" "isMutliplatformMode (view ?c)" "useOptimizedProfile ?c"
    "checklist (info (view ?c)) = example_checklist"
    by (simp_all add: example_GoLiveChecklist_def example_view_def)
  have yt: "map_of (destinations (goLiveSettings (view ?c))) Youtube = Some (example_youtube True)"
    "enabled (example_youtube True)"
    by (simp_all add: example_GoLiveChecklist_def example_view_def example_settings_def
        example_youtube_def)
  have states: "setupRestream example_checklist = NotStarted"
    "applyOptimizedSettings example_checklist = NotStarted"
    "publishYoutubeBroadcast example_checklist = Pending"
    by (simp_all add: example_checklist_def)
  show ?thesis
    using render_stage_gates [of example_styles example_t example_services ?c]
    by (simp add: fields yt states example_t_def) blast
qed

section \<open>The youtube percentage\<close>







end
